theory Spec2Isabelle
  imports Complex_Main "HOL-Library.Word"
begin

section \<open>Vector compression: product and scalar quantizers\<close>

text \<open>
  A shallow embedding of \<^verbatim>\<open>src/scripts/compression/compression_utils.py\<close>.

  Conventions of the embedding:
  \<^item> numpy floats are idealised as \<^typ>\<open>real\<close>: \<^verbatim>\<open>astype(np.float32)\<close> is the
    identity, and no rounding error, infinity or NaN exists. Every statement below is about
    exact arithmetic.
  \<^item> a two-dimensional numpy array is a record of its column count and its rows; the
    column count is kept apart from the rows because an array without rows still has a
    width, and numpy checks shapes before it looks at any element.
  \<^item> counts and dimensions (\<^verbatim>\<open>n_subspaces\<close>, \<^verbatim>\<open>vector_dim\<close>, ...) are natural numbers.
  \<^item> every exception the code can raise is a constructor of \<open>error\<close>; a method that
    mutates \<^verbatim>\<open>self\<close> returns the new object.
\<close>

subsection \<open>Errors\<close>

datatype error =
    PQ_not_trained          \<comment> \<open>\<^verbatim>\<open>ValueError("PQ is not trained yet")\<close>\<close>
  | Quantizer_not_fitted    \<comment> \<open>\<^verbatim>\<open>ValueError("Quantizer not fitted")\<close>\<close>
  | AssertionError          \<comment> \<open>the \<^verbatim>\<open>assert\<close> of the constructor\<close>
  | ZeroDivisionError       \<comment> \<open>integer \<^verbatim>\<open>%\<close> or \<^verbatim>\<open>//\<close> by zero\<close>
  | TypeError               \<comment> \<open>arithmetic on \<^verbatim>\<open>None\<close>\<close>
  | BroadcastError          \<comment> \<open>numpy: operands could not be broadcast together\<close>
  | IndexError              \<comment> \<open>numpy: index out of bounds\<close>
  | EmptyReduction          \<comment> \<open>numpy: min, max or argmin along an axis of length 0\<close>
  | FloatDivideByZero       \<comment> \<open>a float division by zero (inf or NaN in numpy)\<close>
  | FileNotFoundError
  | KeyError                \<comment> \<open>a key missing from the unpickled dictionary\<close>
  | LibraryError            \<comment> \<open>raised inside the clustering or sampling library\<close>

text \<open>An exception leaves the method at once: the rest of the body is skipped.\<close>

fun ebind :: "error + 'a \<Rightarrow> ('a \<Rightarrow> error + 'b) \<Rightarrow> error + 'b" where
  "ebind (Inl e) f = Inl e"
| "ebind (Inr x) f = f x"

subsection \<open>Arrays\<close>

record 'a array2 =
  ncols :: nat
  rows :: "'a list list"

definition nrows :: "'a array2 \<Rightarrow> nat" where
  "nrows a = length (rows a)"

definition wf_array2 :: "'a array2 \<Rightarrow> bool" where
  "wf_array2 a = list_all (\<lambda>r. length r = ncols a) (rows a)"

definition zeros :: "nat \<Rightarrow> nat \<Rightarrow> ('a::zero) array2" where
  "zeros n w = \<lparr>ncols = w, rows = replicate n (replicate w 0)\<rparr>"

text \<open>numpy's broadcasting rule for one axis: equal lengths, or one of them 1.\<close>

definition compat :: "nat \<Rightarrow> nat \<Rightarrow> bool" where
  "compat a b = (a = b \<or> a = 1 \<or> b = 1)"

definition bshape :: "nat \<Rightarrow> nat \<Rightarrow> nat" where
  "bshape a b = (if a = 1 then b else a)"

text \<open>
  An elementwise binary operation on two rows whose lengths are compatible: the row of
  length 1 is stretched.
\<close>

definition bzip :: "('a \<Rightarrow> 'b \<Rightarrow> 'c) \<Rightarrow> 'a list \<Rightarrow> 'b list \<Rightarrow> 'c list" where
  "bzip f xs ys =
     (if length xs = length ys then map2 f xs ys
      else if length xs = 1 then map (f (hd xs)) ys
      else map (\<lambda>x. f x (hd ys)) xs)"

text \<open>\<^verbatim>\<open>a OP v\<close> for a 2-D array \<open>a\<close> and a 1-D array \<open>v\<close>.\<close>

definition bop21 :: "('a \<Rightarrow> 'b \<Rightarrow> 'c) \<Rightarrow> 'a array2 \<Rightarrow> 'b list \<Rightarrow> error + 'c array2" where
  "bop21 f a v =
     (if compat (ncols a) (length v)
      then Inr \<lparr>ncols = bshape (ncols a) (length v), rows = map (\<lambda>r. bzip f r v) (rows a)\<rparr>
      else Inl BroadcastError)"

text \<open>\<^verbatim>\<open>u OP v\<close> for two 1-D arrays.\<close>

definition bop11 :: "('a \<Rightarrow> 'b \<Rightarrow> 'c) \<Rightarrow> 'a list \<Rightarrow> 'b list \<Rightarrow> error + 'c list" where
  "bop11 f u v = (if compat (length u) (length v) then Inr (bzip f u v) else Inl BroadcastError)"

text \<open>\<^verbatim>\<open>a[:, start:end]\<close>: a slice is clipped to the array's width.\<close>

definition slice_cols :: "nat \<Rightarrow> nat \<Rightarrow> 'a array2 \<Rightarrow> 'a array2" where
  "slice_cols start end a =
     \<lparr>ncols = min end (ncols a) - min start (ncols a),
      rows = map (\<lambda>r. take (end - start) (drop start r)) (rows a)\<rparr>"

subsection \<open>Conversion to \<^verbatim>\<open>uint8\<close>\<close>

type_synonym u8 = "8 word"

text \<open>
  \<^verbatim>\<open>astype(np.uint8)\<close> on a float array is a C cast: the fraction is dropped (rounding
  towards zero), and nothing clips the result. For an integer outside \<open>[0, 255]\<close> the C
  standard leaves the result open; the usual numpy builds keep the low eight bits, which is
  what the 8-bit word does here.
\<close>

definition trunc :: "real \<Rightarrow> int" where
  "trunc x = (if 0 \<le> x then \<lfloor>x\<rfloor> else \<lceil>x\<rceil>)"

definition astype_uint8 :: "real \<Rightarrow> u8" where
  "astype_uint8 x = word_of_int (trunc x)"

subsection \<open>ScalarQuantizer\<close>

record ScalarQuantizer =
  min_val :: "real list option"
  max_val :: "real list option"
  is_fitted :: bool

definition ScalarQuantizer_init :: ScalarQuantizer where
  "ScalarQuantizer_init = \<lparr>min_val = None, max_val = None, is_fitted = False\<rparr>"




definition epsilon :: real where
  "epsilon = 1 / 100000000"

text \<open>
  Elementwise float division. numpy does not raise on a zero divisor, it returns inf or NaN;
  the reals have neither, so a zero divisor that is really used is an outcome of its own.
\<close>

definition divide21 :: "real array2 \<Rightarrow> real list \<Rightarrow> error + real array2" where
  "divide21 a v =
     ebind (bop21 divide a v) (\<lambda>q.
       if rows a \<noteq> [] \<and> ncols q \<noteq> 0 \<and> 0 \<in> set v then Inl FloatDivideByZero else Inr q)"

definition map_array2 :: "('a \<Rightarrow> 'b) \<Rightarrow> 'a array2 \<Rightarrow> 'b array2" where
  "map_array2 f a = \<lparr>ncols = ncols a, rows = map (map f) (rows a)\<rparr>"

text \<open>
  \<^verbatim>\<open>normalized = (vectors - self.min_val) / (self.max_val - self.min_val + 1e-8)\<close>,
  \<^verbatim>\<open>return (normalized * 255).astype(np.uint8)\<close>. Subtracting \<^verbatim>\<open>None\<close> raises TypeError; the
  left operand of the division is evaluated first.
\<close>

definition quantize :: "ScalarQuantizer \<Rightarrow> real array2 \<Rightarrow> error + u8 array2" where
  "quantize self vectors =
     (if \<not> is_fitted self then Inl Quantizer_not_fitted
      else case min_val self of
        None \<Rightarrow> Inl TypeError
      | Some mn \<Rightarrow>
          ebind (bop21 minus vectors mn) (\<lambda>numer.
            case max_val self of
              None \<Rightarrow> Inl TypeError
            | Some mx \<Rightarrow>
                ebind (bop11 minus mx mn) (\<lambda>spread.
                ebind (divide21 numer (map (\<lambda>d. d + epsilon) spread)) (\<lambda>normalized.
                  Inr (map_array2 (\<lambda>x. astype_uint8 (x * 255)) normalized)))))"

text \<open>
  \<^verbatim>\<open>normalized = quantized.astype(np.float32) / 255.0\<close>,
  \<^verbatim>\<open>return normalized * (self.max_val - self.min_val) + self.min_val\<close>. There is no check of
  \<^verbatim>\<open>is_fitted\<close> here.
\<close>

definition dequantize :: "ScalarQuantizer \<Rightarrow> u8 array2 \<Rightarrow> error + real array2" where
  "dequantize self quantized =
     (let normalized = map_array2 (\<lambda>q. real (unat q) / 255) quantized
      in case (min_val self, max_val self) of
        (Some mn, Some mx) \<Rightarrow>
          ebind (bop11 minus mx mn) (\<lambda>spread.
          ebind (bop21 times normalized spread) (\<lambda>scaled.
            bop21 plus scaled mn))
      | _ \<Rightarrow> Inl TypeError)"

subsection \<open>ProductQuantizer\<close>

record ProductQuantizer =
  n_subspaces :: nat
  n_centroids :: nat
  vector_dim :: nat
  subvector_dim :: nat
  codebooks :: "real array2 list"
  is_trained :: bool

text \<open>
  \<^verbatim>\<open>__init__\<close>: \<^verbatim>\<open>assert vector_dim % n_subspaces == 0\<close>, then
  \<^verbatim>\<open>self.subvector_dim = vector_dim // n_subspaces\<close>. Nothing looks at \<^verbatim>\<open>n_centroids\<close>.
\<close>

definition ProductQuantizer_init :: "nat \<Rightarrow> nat \<Rightarrow> nat \<Rightarrow> error + ProductQuantizer" where
  "ProductQuantizer_init M K D =
     (if M = 0 then Inl ZeroDivisionError
      else if D mod M \<noteq> 0 then Inl AssertionError
      else Inr \<lparr>n_subspaces = M, n_centroids = K, vector_dim = D, subvector_dim = D div M,
                codebooks = [], is_trained = False\<rparr>)"

text \<open>\<^verbatim>\<open>vectors[idx]\<close> for an index array \<open>idx\<close>.\<close>

definition take_rows :: "nat list \<Rightarrow> 'a array2 \<Rightarrow> error + 'a array2" where
  "take_rows idx a =
     (if list_all (\<lambda>i. i < nrows a) idx
      then Inr \<lparr>ncols = ncols a, rows = map (\<lambda>i. rows a ! i) idx\<rparr>
      else Inl IndexError)"

text \<open>
  The two library calls of \<^verbatim>\<open>train\<close> are parameters of the model:
  \<^item> \<open>kmeans K sub\<close> stands for
    \<^verbatim>\<open>MiniBatchKMeans(n_clusters=K, batch_size=1000, max_iter=50, random_state=42).fit(sub).cluster_centers_\<close>;
    its seed is fixed, so it is a function of \<open>K\<close> and the data;
  \<^item> \<open>choice g n k\<close> stands for \<^verbatim>\<open>np.random.choice(n, k, replace=False)\<close>, which draws from
    numpy's process-wide generator; \<open>g\<close> is the state of that generator before the call, and
    the new state is returned with the indices. The code never seeds this generator.
\<close>

type_synonym kmeans_fn = "nat \<Rightarrow> real array2 \<Rightarrow> error + real array2"
type_synonym 'g choice_fn = "'g \<Rightarrow> nat \<Rightarrow> nat \<Rightarrow> nat list \<times> 'g"

text \<open>
  The loop \<^verbatim>\<open>for m in range(self.n_subspaces)\<close>, appending one codebook per round. When
  the clustering raises, the exception leaves \<open>train\<close>; the model returns the error alone and
  does not keep the object with the codebooks appended so far.
\<close>

fun train_loop :: "kmeans_fn \<Rightarrow> ProductQuantizer \<Rightarrow> real array2 \<Rightarrow> nat list \<Rightarrow> error + ProductQuantizer" where
  "train_loop kmeans self vectors [] = Inr self"
| "train_loop kmeans self vectors (m # ms) =
     (let start = m * subvector_dim self;
          end = start + subvector_dim self;
          subvectors = slice_cols start end vectors
      in ebind (kmeans (n_centroids self) subvectors) (\<lambda>cluster_centers.
           train_loop kmeans (self\<lparr>codebooks := codebooks self @ [cluster_centers]\<rparr>) vectors ms))"

definition sample_rows :: "'g choice_fn \<Rightarrow> 'g \<Rightarrow> real array2 \<Rightarrow> nat \<Rightarrow> error + (real array2 \<times> 'g)" where
  "sample_rows choice g vectors n_samples =
     (if nrows vectors > n_samples
      then (let (idx, g') = choice g (nrows vectors) n_samples
            in ebind (take_rows idx vectors) (\<lambda>sampled. Inr (sampled, g')))
      else Inr (vectors, g))"

definition train ::
  "kmeans_fn \<Rightarrow> 'g choice_fn \<Rightarrow> 'g \<Rightarrow> ProductQuantizer \<Rightarrow> real array2 \<Rightarrow> nat \<Rightarrow> error + (ProductQuantizer \<times> 'g)" where
  "train kmeans choice g self vectors n_samples =
     ebind (sample_rows choice g vectors n_samples) (\<lambda>(sampled, g').
     ebind (train_loop kmeans self sampled [0..<n_subspaces self]) (\<lambda>self'.
       Inr (self'\<lparr>is_trained := True\<rparr>, g')))"

text \<open>\<^verbatim>\<open>np.linalg.norm(..., axis=2)\<close> of one difference vector.\<close>

definition l2norm :: "real list \<Rightarrow> real" where
  "l2norm ds = sqrt (sum_list (map (\<lambda>x. x\<^sup>2) ds))"

text \<open>
  \<^verbatim>\<open>np.linalg.norm(subvectors[:, None, :] - codebook[None, :, :], axis=2)\<close>: the distance of
  every row of \<open>subvectors\<close> to every row of \<open>codebook\<close>. The last axes are broadcast against
  each other.
\<close>

definition distances_to :: "real array2 \<Rightarrow> real array2 \<Rightarrow> error + real array2" where
  "distances_to subvectors codebook =
     (if compat (ncols subvectors) (ncols codebook)
      then Inr \<lparr>ncols = nrows codebook,
                rows = map (\<lambda>v. map (\<lambda>c. l2norm (bzip minus v c)) (rows codebook)) (rows subvectors)\<rparr>
      else Inl BroadcastError)"

text \<open>\<^verbatim>\<open>np.argmin\<close> along a row: a scan that keeps the first smallest element.\<close>

fun argmin_scan :: "real list \<Rightarrow> nat \<Rightarrow> nat \<Rightarrow> real \<Rightarrow> nat" where
  "argmin_scan [] i best bv = best"
| "argmin_scan (x # xs) i best bv =
     (if x < bv then argmin_scan xs (Suc i) i x else argmin_scan xs (Suc i) best bv)"

definition argmin :: "real list \<Rightarrow> nat" where
  "argmin xs = (case xs of [] \<Rightarrow> 0 | x # xs' \<Rightarrow> argmin_scan xs' 1 0 x)"

definition argmin_axis1 :: "real array2 \<Rightarrow> error + nat list" where
  "argmin_axis1 a = (if ncols a = 0 then Inl EmptyReduction else Inr (map argmin (rows a)))"

text \<open>\<^verbatim>\<open>codes[:, m] = vals\<close> on a \<^verbatim>\<open>uint8\<close> array: the indices are cast to bytes.\<close>

definition set_col :: "nat \<Rightarrow> nat list \<Rightarrow> u8 array2 \<Rightarrow> error + u8 array2" where
  "set_col m vals codes =
     (if m < ncols codes
      then Inr \<lparr>ncols = ncols codes, rows = map2 (\<lambda>r v. r[m := of_nat v]) (rows codes) vals\<rparr>
      else Inl IndexError)"

text \<open>The loop \<^verbatim>\<open>for m, codebook in enumerate(self.codebooks)\<close> of \<^verbatim>\<open>encode\<close>.\<close>

fun encode_loop ::
  "ProductQuantizer \<Rightarrow> real array2 \<Rightarrow> nat \<Rightarrow> real array2 list \<Rightarrow> u8 array2 \<Rightarrow> error + u8 array2" where
  "encode_loop self vectors m [] codes = Inr codes"
| "encode_loop self vectors m (codebook # rest) codes =
     (let start = m * subvector_dim self;
          end = start + subvector_dim self;
          subvectors = slice_cols start end vectors
      in ebind (distances_to subvectors codebook) (\<lambda>distances.
         ebind (argmin_axis1 distances) (\<lambda>nearest.
         ebind (set_col m nearest codes) (\<lambda>codes'.
           encode_loop self vectors (Suc m) rest codes'))))"

definition encode :: "ProductQuantizer \<Rightarrow> real array2 \<Rightarrow> error + u8 array2" where
  "encode self vectors =
     (if \<not> is_trained self then Inl PQ_not_trained
      else encode_loop self vectors 0 (codebooks self) (zeros (nrows vectors) (n_subspaces self)))"

text \<open>\<^verbatim>\<open>codes[:, m]\<close>, \<^verbatim>\<open>codebook[indices]\<close> and \<^verbatim>\<open>reconstructed[:, start:end] = src\<close>.\<close>

definition get_col :: "nat \<Rightarrow> 'a array2 \<Rightarrow> error + 'a list" where
  "get_col m a = (if m < ncols a then Inr (map (\<lambda>r. r ! m) (rows a)) else Inl IndexError)"

definition gather :: "'a array2 \<Rightarrow> u8 list \<Rightarrow> error + 'a array2" where
  "gather codebook idx =
     (if list_all (\<lambda>i. unat i < nrows codebook) idx
      then Inr \<lparr>ncols = ncols codebook, rows = map (\<lambda>i. rows codebook ! unat i) idx\<rparr>
      else Inl IndexError)"

definition assign_cols :: "nat \<Rightarrow> nat \<Rightarrow> 'a array2 \<Rightarrow> 'a array2 \<Rightarrow> error + 'a array2" where
  "assign_cols start end src dst =
     (let w = min end (ncols dst) - min start (ncols dst)
      in if ncols src = w \<or> ncols src = 1
         then Inr \<lparr>ncols = ncols dst,
                   rows = map2 (\<lambda>d s. take start d @ (if length s = w then s else replicate w (hd s))
                                        @ drop (start + w) d) (rows dst) (rows src)\<rparr>
         else Inl BroadcastError)"

text \<open>The loop of \<^verbatim>\<open>decode\<close>.\<close>

fun decode_loop ::
  "ProductQuantizer \<Rightarrow> u8 array2 \<Rightarrow> nat \<Rightarrow> real array2 list \<Rightarrow> real array2 \<Rightarrow> error + real array2" where
  "decode_loop self codes m [] reconstructed = Inr reconstructed"
| "decode_loop self codes m (codebook # rest) reconstructed =
     (let start = m * subvector_dim self;
          end = start + subvector_dim self
      in ebind (get_col m codes) (\<lambda>indices.
         ebind (gather codebook indices) (\<lambda>centroids.
         ebind (assign_cols start end centroids reconstructed) (\<lambda>reconstructed'.
           decode_loop self codes (Suc m) rest reconstructed'))))"

text \<open>\<^verbatim>\<open>decode\<close> has no check of \<^verbatim>\<open>is_trained\<close>.\<close>

definition decode :: "ProductQuantizer \<Rightarrow> u8 array2 \<Rightarrow> error + real array2" where
  "decode self codes =
     decode_loop self codes 0 (codebooks self) (zeros (nrows codes) (vector_dim self))"

subsection \<open>Persistence\<close>

text \<open>
  \<^verbatim>\<open>save\<close> pickles a dictionary into a file and \<^verbatim>\<open>load\<close> unpickles it. The file system is a
  map from paths to the pickled dictionaries; pickling itself is exact.
\<close>

record pq_dict =
  d_n_subspaces :: nat
  d_n_centroids :: nat
  d_vector_dim :: nat
  d_codebooks :: "real array2 list"
  d_is_trained :: bool

record sq_dict =
  d_min_val :: "real list option"
  d_max_val :: "real list option"
  d_is_fitted :: bool

datatype pickled = PQ_pickle pq_dict | SQ_pickle sq_dict

type_synonym filesystem = "string \<rightharpoonup> pickled"

definition ProductQuantizer_save :: "ProductQuantizer \<Rightarrow> string \<Rightarrow> filesystem \<Rightarrow> filesystem" where
  "ProductQuantizer_save self path fs =
     fs(path \<mapsto> PQ_pickle \<lparr>d_n_subspaces = n_subspaces self, d_n_centroids = n_centroids self,
                             d_vector_dim = vector_dim self, d_codebooks = codebooks self,
                             d_is_trained = is_trained self\<rparr>)"

definition ProductQuantizer_load :: "ProductQuantizer \<Rightarrow> string \<Rightarrow> filesystem \<Rightarrow> error + ProductQuantizer" where
  "ProductQuantizer_load self path fs =
     (case fs path of
        None \<Rightarrow> Inl FileNotFoundError
      | Some (SQ_pickle d) \<Rightarrow> Inl KeyError
      | Some (PQ_pickle d) \<Rightarrow>
          Inr (self\<lparr>n_subspaces := d_n_subspaces d, n_centroids := d_n_centroids d,
                    vector_dim := d_vector_dim d, codebooks := d_codebooks d,
                    is_trained := d_is_trained d\<rparr>))"

definition ScalarQuantizer_save :: "ScalarQuantizer \<Rightarrow> string \<Rightarrow> filesystem \<Rightarrow> filesystem" where
  "ScalarQuantizer_save self path fs =
     fs(path \<mapsto> SQ_pickle \<lparr>d_min_val = min_val self, d_max_val = max_val self,
                             d_is_fitted = is_fitted self\<rparr>)"

definition ScalarQuantizer_load :: "ScalarQuantizer \<Rightarrow> string \<Rightarrow> filesystem \<Rightarrow> error + ScalarQuantizer" where
  "ScalarQuantizer_load self path fs =
     (case fs path of
        None \<Rightarrow> Inl FileNotFoundError
      | Some (PQ_pickle d) \<Rightarrow> Inl KeyError
      | Some (SQ_pickle d) \<Rightarrow>
          Inr (self\<lparr>min_val := d_min_val d, max_val := d_max_val d, is_fitted := d_is_fitted d\<rparr>))"

subsection \<open>Well-formed trained models\<close>


text \<open>
  The state of a model after the constructor and one run of \<open>train\<close>: one codebook per
  subspace, each with \<open>n_centroids\<close> rows of width \<open>subvector_dim\<close>, and between 1 and 256
  centroids, so that an index fits into a byte.
\<close>

definition trained_model :: "ProductQuantizer \<Rightarrow> bool" where
  "trained_model self =
     (is_trained self
      \<and> length (codebooks self) = n_subspaces self
      \<and> vector_dim self = n_subspaces self * subvector_dim self
      \<and> 0 < n_centroids self \<and> n_centroids self \<le> 256
      \<and> list_all (\<lambda>cb. wf_array2 cb \<and> ncols cb = subvector_dim self \<and> nrows cb = n_centroids self)
           (codebooks self))"

text \<open>
  Stand-ins for the two library calls, used only to evaluate \<open>train\<close> on concrete inputs.
  The clustering stand-in rejects fewer samples than clusters, as the library does, and
  otherwise returns the first \<open>K\<close> samples as centres; with as many samples as clusters
  the centres of k-means are the samples themselves. The sampling stand-in reads the drawn
  indices off the generator state, which is the list of indices the generator emits next.
\<close>

definition first_k_centres :: kmeans_fn where
  "first_k_centres K sub =
     (if nrows sub < K \<or> nrows sub = 0 then Inl LibraryError
      else Inr \<lparr>ncols = ncols sub, rows = take K (rows sub)\<rparr>)"

definition draw_from_state :: "(nat list) choice_fn" where
  "draw_from_state g n k = (take k g, drop k g)"

section \<open>Properties\<close>

lemmas array_defs = bop21_def bop11_def compat_def bshape_def bzip_def divide21_def map_array2_def
  slice_cols_def zeros_def nrows_def distances_to_def argmin_axis1_def argmin_def set_col_def
  get_col_def gather_def assign_cols_def l2norm_def

lemma replicate_numeral: "replicate (numeral k) x = x # replicate (pred_numeral k) x"
  by (simp add: numeral_eq_Suc)

subsection \<open>Use before training\<close>

lemma encode_untrained: "\<not> is_trained self \<Longrightarrow> encode self vectors = Inl PQ_not_trained"
  by (simp add: encode_def)

lemma quantize_unfitted: "\<not> is_fitted self \<Longrightarrow> quantize self vectors = Inl Quantizer_not_fitted"
  by (simp add: quantize_def)

text \<open>
  C2. On a freshly constructed model, \<open>encode\<close> and \<open>quantize\<close> fail with their precondition
  errors, but \<open>decode\<close> returns an all-zero array and \<open>dequantize\<close> fails with a TypeError:
  neither of the two checks its flag.
\<close>

theorem use_before_training:
  "encode \<lparr>n_subspaces = M, n_centroids = K, vector_dim = D, subvector_dim = D div M,
            codebooks = [], is_trained = False\<rparr> vectors = Inl PQ_not_trained
   \<and> decode \<lparr>n_subspaces = M, n_centroids = K, vector_dim = D, subvector_dim = D div M,
              codebooks = [], is_trained = False\<rparr> codes = Inr (zeros (nrows codes) D)
   \<and> quantize ScalarQuantizer_init vectors = Inl Quantizer_not_fitted
   \<and> dequantize ScalarQuantizer_init quantized = Inl TypeError"
  by (simp add: encode_def decode_def quantize_def dequantize_def ScalarQuantizer_init_def)

subsection \<open>Persistence\<close>

lemma load_after_save:
  "ProductQuantizer_load self path (ProductQuantizer_save orig path fs) =
     Inr (orig\<lparr>subvector_dim := subvector_dim self\<rparr>)"
  by (simp add: ProductQuantizer_load_def ProductQuantizer_save_def)

lemma load_after_save_same_width:
  "subvector_dim self = subvector_dim orig \<Longrightarrow>
   ProductQuantizer_load self path (ProductQuantizer_save orig path fs) = Inr orig"
  by (simp add: load_after_save)

text \<open>
  C6. A model with two subspaces over four dimensions is saved and then loaded into a
  default-constructed object, as \<^verbatim>\<open>compress.py\<close> does. The original encodes the vector
  \<open>(0, 5, 0, 5)\<close> as \<open>(1, 1)\<close>; the loaded object still slices by the constructor's width 128
  and fails in the broadcast.
\<close>

theorem roundtrip_into_default_object:
  "ProductQuantizer_init 8 256 1024 =
     Inr \<lparr>n_subspaces = 8, n_centroids = 256, vector_dim = 1024, subvector_dim = 128,
          codebooks = [], is_trained = False\<rparr>
   \<and> encode \<lparr>n_subspaces = 2, n_centroids = 2, vector_dim = 4, subvector_dim = 2,
              codebooks = [\<lparr>ncols = 2, rows = [[0, 0], [0, 5]]\<rparr>, \<lparr>ncols = 2, rows = [[0, 0], [0, 5]]\<rparr>],
              is_trained = True\<rparr>
        \<lparr>ncols = 4, rows = [[0, 5, 0, 5]]\<rparr> = Inr \<lparr>ncols = 2, rows = [[1, 1]]\<rparr>
   \<and> ebind (ProductQuantizer_load
              \<lparr>n_subspaces = 8, n_centroids = 256, vector_dim = 1024, subvector_dim = 128,
               codebooks = [], is_trained = False\<rparr>
              ''pq_codebook.pkl''
              (ProductQuantizer_save
                 \<lparr>n_subspaces = 2, n_centroids = 2, vector_dim = 4, subvector_dim = 2,
                  codebooks = [\<lparr>ncols = 2, rows = [[0, 0], [0, 5]]\<rparr>, \<lparr>ncols = 2, rows = [[0, 0], [0, 5]]\<rparr>],
                  is_trained = True\<rparr>
                 ''pq_codebook.pkl'' Map.empty))
       (\<lambda>loaded. encode loaded \<lparr>ncols = 4, rows = [[0, 5, 0, 5]]\<rparr>) = Inl BroadcastError"
  by (simp add: ProductQuantizer_init_def ProductQuantizer_load_def ProductQuantizer_save_def
      encode_def array_defs replicate_numeral)

text \<open>
  C10, as amended. \<open>load\<close> overwrites the five pickled fields and leaves \<open>subvector_dim\<close> at
  the value \<open>D0 div M0\<close> that the constructor computed. After the load the object slices by
  the loaded configuration's own width exactly when \<open>D0 div M0\<close> equals the artifact's
  \<open>vector_dim div n_subspaces\<close>.
\<close>

theorem load_keeps_subvector_dim:
  assumes "ProductQuantizer_init M0 K0 D0 = Inr self"
    and "fs path = Some (PQ_pickle d)"
  shows "\<exists>loaded. ProductQuantizer_load self path fs = Inr loaded
           \<and> n_subspaces loaded = d_n_subspaces d
           \<and> n_centroids loaded = d_n_centroids d
           \<and> vector_dim loaded = d_vector_dim d
           \<and> codebooks loaded = d_codebooks d
           \<and> is_trained loaded = d_is_trained d
           \<and> subvector_dim loaded = D0 div M0
           \<and> (subvector_dim loaded = vector_dim loaded div n_subspaces loaded
                \<longleftrightarrow> D0 div M0 = d_vector_dim d div d_n_subspaces d)"
  using assms
  by (auto simp: ProductQuantizer_init_def ProductQuantizer_load_def split: if_splits)

theorem load_keeps_subvector_dim_witness:
  "ProductQuantizer_init 8 256 1024 =
     Inr \<lparr>n_subspaces = 8, n_centroids = 256, vector_dim = 1024, subvector_dim = 128,
          codebooks = [], is_trained = False\<rparr>
   \<and> (\<exists>loaded. ProductQuantizer_load
          \<lparr>n_subspaces = 8, n_centroids = 256, vector_dim = 1024, subvector_dim = 128,
           codebooks = [], is_trained = False\<rparr>
          ''pq_codebook.pkl''
          [''pq_codebook.pkl'' \<mapsto> PQ_pickle \<lparr>d_n_subspaces = 2, d_n_centroids = 2, d_vector_dim = 4,
             d_codebooks = [\<lparr>ncols = 2, rows = [[0, 0], [0, 5]]\<rparr>, \<lparr>ncols = 2, rows = [[0, 0], [0, 5]]\<rparr>],
             d_is_trained = True\<rparr>] = Inr loaded
        \<and> n_subspaces loaded = 2 \<and> vector_dim loaded = 4 \<and> subvector_dim loaded = 128
        \<and> subvector_dim loaded \<noteq> vector_dim loaded div n_subspaces loaded)"
proof -
  have init: "ProductQuantizer_init 8 256 1024 =
     Inr \<lparr>n_subspaces = 8, n_centroids = 256, vector_dim = 1024, subvector_dim = 128,
          codebooks = [], is_trained = False\<rparr>"
    by (simp add: ProductQuantizer_init_def)
  show ?thesis
    using init load_keeps_subvector_dim [OF init,
        of "[''pq_codebook.pkl'' \<mapsto> PQ_pickle \<lparr>d_n_subspaces = 2, d_n_centroids = 2, d_vector_dim = 4,
             d_codebooks = [\<lparr>ncols = 2, rows = [[0, 0], [0, 5]]\<rparr>, \<lparr>ncols = 2, rows = [[0, 0], [0, 5]]\<rparr>],
             d_is_trained = True\<rparr>]" "''pq_codebook.pkl''"]
    by auto
qed

text \<open>
  The claim as written fails: an object constructed for four subspaces over eight dimensions
  does not match an artifact with two subspaces over four dimensions, and yet the loaded
  object is the saved model itself, so \<open>encode\<close> and \<open>decode\<close> behave as on the original.
\<close>

theorem load_mismatched_arguments_counterexample:
  "ProductQuantizer_init 4 256 8 =
     Inr \<lparr>n_subspaces = 4, n_centroids = 256, vector_dim = 8, subvector_dim = 2,
          codebooks = [], is_trained = False\<rparr>
   \<and> ProductQuantizer_load
        \<lparr>n_subspaces = 4, n_centroids = 256, vector_dim = 8, subvector_dim = 2,
         codebooks = [], is_trained = False\<rparr>
        ''pq_codebook.pkl''
        (ProductQuantizer_save
           \<lparr>n_subspaces = 2, n_centroids = 2, vector_dim = 4, subvector_dim = 2,
            codebooks = [\<lparr>ncols = 2, rows = [[0, 0], [0, 5]]\<rparr>, \<lparr>ncols = 2, rows = [[0, 0], [0, 5]]\<rparr>],
            is_trained = True\<rparr>
           ''pq_codebook.pkl'' Map.empty)
      = Inr \<lparr>n_subspaces = 2, n_centroids = 2, vector_dim = 4, subvector_dim = 2,
             codebooks = [\<lparr>ncols = 2, rows = [[0, 0], [0, 5]]\<rparr>, \<lparr>ncols = 2, rows = [[0, 0], [0, 5]]\<rparr>],
             is_trained = True\<rparr>"
  by (simp add: ProductQuantizer_init_def ProductQuantizer_load_def ProductQuantizer_save_def)

subsection \<open>Scalar quantization\<close>

















subsection \<open>Constant dimensions\<close>















subsection \<open>Input width\<close>







subsection \<open>Nearest centroid\<close>













subsection \<open>Training\<close>


lemma sample_rows_small:
  "nrows vectors \<le> n_samples \<Longrightarrow> sample_rows choice g vectors n_samples = Inr (vectors, g)"
  by (simp add: sample_rows_def)

text \<open>Without sampling, the generator plays no part in training.\<close>

lemma train_without_sampling:
  assumes "nrows vectors \<le> n_samples"
  shows "map_sum id fst (train kmeans choice g self vectors n_samples) =
         map_sum id fst (train kmeans choice' g' self vectors n_samples)"
  using assms
  by (cases "train_loop kmeans self vectors [0..<n_subspaces self]")
    (simp_all add: train_def sample_rows_small)




text \<open>
  C8. Two rows, a sample size of one, one centroid. The row that is drawn, and with it the
  codebook, depends on the state of the process-wide generator, which the code never seeds:
  from a state that emits index 0 the codebook is \<open>(0)\<close>, from a state that emits index 1 it
  is \<open>(1)\<close>. The input and the parameters are the same in both runs.
\<close>

theorem training_depends_on_generator_state:
  "ProductQuantizer_init 1 1 1 =
     Inr \<lparr>n_subspaces = 1, n_centroids = 1, vector_dim = 1, subvector_dim = 1,
          codebooks = [], is_trained = False\<rparr>
   \<and> train first_k_centres draw_from_state [0]
        \<lparr>n_subspaces = 1, n_centroids = 1, vector_dim = 1, subvector_dim = 1,
         codebooks = [], is_trained = False\<rparr>
        \<lparr>ncols = 1, rows = [[0], [1]]\<rparr> 1 =
      Inr (\<lparr>n_subspaces = 1, n_centroids = 1, vector_dim = 1, subvector_dim = 1,
            codebooks = [\<lparr>ncols = 1, rows = [[0]]\<rparr>], is_trained = True\<rparr>, [])
   \<and> train first_k_centres draw_from_state [1]
        \<lparr>n_subspaces = 1, n_centroids = 1, vector_dim = 1, subvector_dim = 1,
         codebooks = [], is_trained = False\<rparr>
        \<lparr>ncols = 1, rows = [[0], [1]]\<rparr> 1 =
      Inr (\<lparr>n_subspaces = 1, n_centroids = 1, vector_dim = 1, subvector_dim = 1,
            codebooks = [\<lparr>ncols = 1, rows = [[1]]\<rparr>], is_trained = True\<rparr>, [])"
  by (simp add: ProductQuantizer_init_def train_def sample_rows_def nrows_def first_k_centres_def
      slice_cols_def Let_def draw_from_state_def take_rows_def)

lemma train_loop_result:
  assumes "train_loop kmeans self vectors ms = Inr self'"
  shows "\<exists>cbs. self' = self\<lparr>codebooks := codebooks self @ cbs\<rparr> \<and> length cbs = length ms
           \<and> (\<forall>k<length ms. kmeans (n_centroids self)
                  (slice_cols (ms ! k * subvector_dim self)
                     (ms ! k * subvector_dim self + subvector_dim self) vectors) = Inr (cbs ! k))"
  using assms
proof (induction ms arbitrary: self)
  case Nil
  then show ?case by simp
next
  case (Cons m ms)
  let ?sub = "slice_cols (m * subvector_dim self) (m * subvector_dim self + subvector_dim self) vectors"
  from Cons.prems obtain c where c: "kmeans (n_centroids self) ?sub = Inr c"
    and rest: "train_loop kmeans (self\<lparr>codebooks := codebooks self @ [c]\<rparr>) vectors ms = Inr self'"
    by (cases "kmeans (n_centroids self) ?sub") (simp_all add: Let_def)
  from Cons.IH [OF rest] obtain cbs where
    cbs: "self' = self\<lparr>codebooks := codebooks self @ [c] @ cbs\<rparr>" "length cbs = length ms"
      "\<forall>k<length ms. kmeans (n_centroids self)
                  (slice_cols (ms ! k * subvector_dim self)
                     (ms ! k * subvector_dim self + subvector_dim self) vectors) = Inr (cbs ! k)"
    by auto
  have "\<forall>k<length (m # ms). kmeans (n_centroids self)
                  (slice_cols ((m # ms) ! k * subvector_dim self)
                     ((m # ms) ! k * subvector_dim self + subvector_dim self) vectors) = Inr ((c # cbs) ! k)"
    using c cbs(3) by (auto simp: nth_Cons split: nat.splits)
  with cbs(1,2) show ?case by (intro exI [of _ "c # cbs"]) simp
qed

text \<open>
  A model that the constructor built and \<open>train\<close> trained once satisfies \<open>trained_model\<close>,
  provided \<open>1 \<le> K \<le> 256\<close>, the input has \<open>D\<close> columns, and the clustering routine returns
  \<open>K\<close> centres of the width of its input, as the library does.
\<close>

lemma train_establishes_trained_model:
  assumes init: "ProductQuantizer_init M K D = Inr self0"
    and K: "0 < K" "K \<le> 256"
    and km: "\<forall>sub c. kmeans K sub = Inr c \<longrightarrow> wf_array2 c \<and> ncols c = ncols sub \<and> nrows c = K"
    and width: "ncols vectors = D"
    and train: "train kmeans choice g self0 vectors n_samples = Inr (self, g')"
  shows "trained_model self"
proof -
  from init have M: "M \<noteq> 0" "D mod M = 0"
    and self0: "self0 = \<lparr>n_subspaces = M, n_centroids = K, vector_dim = D, subvector_dim = D div M,
                codebooks = [], is_trained = False\<rparr>"
    by (auto simp: ProductQuantizer_init_def split: if_splits)
  have D: "D = M * (D div M)" using M by (metis mult_div_mod_eq add.right_neutral)
  from train obtain sampled self1 where
    sampled: "sample_rows choice g vectors n_samples = Inr (sampled, g')"
    and loop: "train_loop kmeans self0 sampled [0..<M] = Inr self1"
    and self: "self = self1\<lparr>is_trained := True\<rparr>"
    unfolding train_def
    by (cases "sample_rows choice g vectors n_samples";
        cases "train_loop kmeans self0 (fst (projr (sample_rows choice g vectors n_samples))) [0..<n_subspaces self0]")
      (auto simp: self0)
  have ncols_sampled: "ncols sampled = D"
    using sampled width
    by (auto simp: sample_rows_def take_rows_def split: if_splits prod.splits)
  from train_loop_result [OF loop] obtain cbs where
    self1: "self1 = self0\<lparr>codebooks := cbs\<rparr>" and len: "length cbs = M"
    and each: "\<forall>k<M. kmeans K (slice_cols (k * (D div M)) (k * (D div M) + D div M) sampled) = Inr (cbs ! k)"
    by (auto simp: self0)
  have "wf_array2 cb \<and> ncols cb = D div M \<and> nrows cb = K" if "cb \<in> set cbs" for cb
  proof -
    from that len obtain k where k: "k < M" "cb = cbs ! k" by (auto simp: in_set_conv_nth)
    let ?sub = "slice_cols (k * (D div M)) (k * (D div M) + D div M) sampled"
    have "k * (D div M) + D div M \<le> M * (D div M)"
      using k(1) by (metis Suc_leI mult_Suc mult_le_mono1 add.commute)
    then have "k * (D div M) + D div M \<le> D" using D by simp
    then have "ncols ?sub = D div M" using ncols_sampled by (simp add: slice_cols_def)
    moreover have "kmeans K ?sub = Inr cb" using each k by simp
    ultimately show ?thesis using km by auto
  qed
  then show ?thesis
    using K D len by (simp add: trained_model_def self self1 self0 list_all_iff)
qed

end
